theory Spec2Isabelle
  imports Complex_Main "HOL-Library.Word" "HOL-Library.Multiset" "HOL-Library.Sublist"
begin

section \<open>Strings and numbers of the page\<close>

text \<open>
  A JavaScript string is a sequence of UTF-16 code units. Model ids, prompt text, file
  names and messages are all such strings. A string literal of the source (ASCII only in
  \<^verbatim>\<open>page.tsx\<close>) is written \<open>lit ''...''\<close>.
\<close>

type_synonym code_unit = "16 word"
type_synonym js_string = "code_unit list"

definition lit :: "string \<Rightarrow> js_string" where
  "lit s = map of_char s"

text \<open>
  \<^verbatim>\<open>String.prototype.trim\<close> removes leading and trailing WhiteSpace and LineTerminator
  code points (ECMA-262): TAB, VT, FF, SP, NBSP, ZWNBSP, the Unicode space separators,
  and LF, CR, LS, PS. All of them are single code units.
\<close>

definition whiteSpaceUnits :: "code_unit list" where
  "whiteSpaceUnits =
     [0x0009, 0x000A, 0x000B, 0x000C, 0x000D, 0x0020, 0x00A0, 0x1680,
      0x2000, 0x2001, 0x2002, 0x2003, 0x2004, 0x2005, 0x2006, 0x2007,
      0x2008, 0x2009, 0x200A, 0x2028, 0x2029, 0x202F, 0x205F, 0x3000, 0xFEFF]"

definition isWhiteSpace :: "code_unit \<Rightarrow> bool" where
  "isWhiteSpace c = (c \<in> set whiteSpaceUnits)"

definition trim :: "js_string \<Rightarrow> js_string" where
  "trim s = rev (dropWhile isWhiteSpace (rev (dropWhile isWhiteSpace s)))"

definition startsWith :: "js_string \<Rightarrow> js_string \<Rightarrow> bool" where
  "startsWith s p = (take (length p) s = p)"

text \<open>
  Scores are JavaScript numbers. The model takes the finite ones, each of which is a
  rational; for finite doubles the sign of the computed difference \<open>b - a\<close> is the sign
  of the exact difference, which is all the page uses of their arithmetic. Formatting
  with \<^verbatim>\<open>toFixed\<close> is left out: a view holds the number that is formatted.
\<close>

type_synonym score = rat

section \<open>Data model (\<^verbatim>\<open>lib/types\<close>, as the page uses it)\<close>

text \<open>
  Field names are the source's. A name that two records share (\<open>modelId\<close>,
  \<open>overall\<close>, \<open>metrics\<close>, \<open>rationale\<close>, \<open>name\<close>, \<open>modalitySupport\<close>), that is a
  constant of HOL (\<open>id\<close>) or a keyword of Isabelle (\<open>text\<close>) carries a prefix naming
  its record.
\<close>

record model =
  model_id :: js_string
  model_name :: js_string
  vendor :: js_string
  capabilities :: "js_string list"
  modalitySupport :: "js_string list"
  release :: js_string
  description :: js_string

datatype modality = TextOnly | Multimodal

record prompt_payload =
  payload_text :: js_string
  imageFileName :: "js_string option"
  imageDataUrl :: "js_string option"
  modality :: modality

record model_response =
  resp_modelId :: js_string
  content :: js_string
  highlights :: "js_string list"
  resp_modalitySupport :: "js_string list"

record metrics =
  quality :: score
  clarity :: score
  relevance :: score
  accuracy :: score

record cross_evaluation =
  judgeModelId :: js_string
  targetModelId :: js_string
  ce_overall :: score
  ce_metrics :: metrics
  ce_rationale :: js_string

record aggregated_score =
  agg_modelId :: js_string
  meanMetrics :: metrics
  agg_overall :: score

record gemini_ranking_entry =
  gr_modelId :: js_string
  placement :: nat
  confidence :: score
  gr_rationale :: js_string

record simulation_outcome =
  responses :: "model_response list"
  crossEvaluations :: "cross_evaluation list"
  aggregates :: "aggregated_score list"
  topThree :: "aggregated_score list"
  geminiRanking :: "gemini_ranking_entry list"

record image_attachment =
  att_name :: js_string
  dataUrl :: js_string

section \<open>Module-level constants of the page\<close>

definition MIN_MODELS :: nat where
  "MIN_MODELS = 4"

definition MAX_MODELS :: nat where
  "MAX_MODELS = 5"

text \<open>
  \<^verbatim>\<open>MODEL_OPTIONS\<close> and \<^verbatim>\<open>META_EVALUATOR_ID\<close> are imported from \<^verbatim>\<open>lib/models\<close>;
  the page's filter takes them as arguments here.
\<close>

definition selectableModels :: "model list \<Rightarrow> js_string \<Rightarrow> model list" where
  "selectableModels MODEL_OPTIONS META_EVALUATOR_ID =
     filter (\<lambda>m. model_id m \<noteq> META_EVALUATOR_ID) MODEL_OPTIONS"

section \<open>State of \<^verbatim>\<open>HomePage\<close> and its event handlers\<close>

text \<open>
  The seven \<^verbatim>\<open>useState\<close> cells of the component. \<open>None\<close> is \<^verbatim>\<open>null\<close>.
\<close>

record page_state =
  selected :: "js_string list"
  promptText :: js_string
  imageAttachment :: "image_attachment option"
  simulation :: "simulation_outcome option"
  processing :: bool
  error :: "js_string option"
  userChoice :: "js_string option"

definition initialState :: page_state where
  "initialState =
     \<lparr>selected = [], promptText = [], imageAttachment = None, simulation = None,
      processing = False, error = None, userChoice = None\<rparr>"

text \<open>The updater passed to \<^verbatim>\<open>setSelected\<close>, applied to the current selection.\<close>

definition handleToggleModel :: "js_string \<Rightarrow> page_state \<Rightarrow> page_state" where
  "handleToggleModel modelId st =
     st\<lparr>selected :=
          (let prev = selected st in
           if modelId \<in> set prev then filter (\<lambda>i. i \<noteq> modelId) prev
           else if length prev \<ge> MAX_MODELS then prev
           else prev @ [modelId])\<rparr>"

text \<open>
  The messages of \<^verbatim>\<open>setError\<close>. The two template literals are shown with
  \<^verbatim>\<open>MIN_MODELS\<close> and \<^verbatim>\<open>MAX_MODELS\<close> already rendered.
\<close>

definition msgTooFew :: js_string where
  "msgTooFew = lit ''Select at least 4 models to run a comparison.''"

definition msgTooMany :: js_string where
  "msgTooMany = lit ''You can compare at most 5 models at a time.''"

definition msgNoPrompt :: js_string where
  "msgNoPrompt = lit ''Enter a descriptive prompt to evaluate.''"

definition msgNotImage :: js_string where
  "msgNotImage = lit ''Only image files are supported for visual prompts.''"

text \<open>
  \<^verbatim>\<open>handleImageUpload\<close> receives \<^verbatim>\<open>event.target.files?.[0]\<close>. For an image file it
  only starts a \<^verbatim>\<open>FileReader\<close>; the state changes later, in \<^verbatim>\<open>reader.onload\<close>, whose
  result is a string (\<open>Some\<close>) or something else (\<open>None\<close>).
\<close>

record upload_file =
  file_name :: js_string
  file_type :: js_string

definition handleImageUpload :: "upload_file option \<Rightarrow> page_state \<Rightarrow> page_state" where
  "handleImageUpload files0 st =
     (case files0 of
        None \<Rightarrow> st\<lparr>imageAttachment := None\<rparr>
      | Some f \<Rightarrow>
          if \<not> startsWith (file_type f) (lit ''image/'') then st\<lparr>error := Some msgNotImage\<rparr>
          else st)"

definition readerOnload :: "upload_file \<Rightarrow> js_string option \<Rightarrow> page_state \<Rightarrow> page_state" where
  "readerOnload f result st =
     (case result of
        Some r \<Rightarrow> st\<lparr>imageAttachment := Some \<lparr>att_name = file_name f, dataUrl = r\<rparr>,
                      error := None\<rparr>
      | None \<Rightarrow> st)"

definition resetAttachment :: "page_state \<Rightarrow> page_state" where
  "resetAttachment st = st\<lparr>imageAttachment := None\<rparr>"

text \<open>
  \<^verbatim>\<open>simulateEvaluation\<close> is imported from \<^verbatim>\<open>lib/simulation\<close>; \<^verbatim>\<open>handleSubmit\<close> takes it
  as an argument. It returns an outcome or throws. \<^verbatim>\<open>handleSubmit\<close> has no
  \<^verbatim>\<open>try\<close>: an exception leaves the handler after \<^verbatim>\<open>setProcessing(true)\<close> and
  \<^verbatim>\<open>setError(null)\<close> have been queued, and before \<^verbatim>\<open>setSimulation\<close>.
\<close>

datatype engine_error = InvalidSelection | InvalidPrompt

type_synonym engine = "js_string list \<Rightarrow> prompt_payload \<Rightarrow> engine_error + simulation_outcome"

text \<open>
  What one call of \<^verbatim>\<open>handleSubmit\<close> does: the state it leaves, the calls of
  \<^verbatim>\<open>simulateEvaluation\<close> it made (with their arguments, in order), and the exception
  that escaped, if any.
\<close>

record submit_result =
  after :: page_state
  invoked :: "(js_string list \<times> prompt_payload) list"
  uncaught :: "engine_error option"

definition promptPayload :: "page_state \<Rightarrow> prompt_payload" where
  "promptPayload st =
     \<lparr>payload_text = trim (promptText st),
      imageFileName = map_option att_name (imageAttachment st),
      imageDataUrl = map_option dataUrl (imageAttachment st),
      modality = (if imageAttachment st \<noteq> None then Multimodal else TextOnly)\<rparr>"

definition handleSubmit :: "engine \<Rightarrow> page_state \<Rightarrow> submit_result" where
  "handleSubmit simulateEvaluation st =
     (if length (selected st) < MIN_MODELS then
        \<lparr>after = st\<lparr>error := Some msgTooFew\<rparr>, invoked = [], uncaught = None\<rparr>
      else if length (selected st) > MAX_MODELS then
        \<lparr>after = st\<lparr>error := Some msgTooMany\<rparr>, invoked = [], uncaught = None\<rparr>
      else if trim (promptText st) = [] then
        \<lparr>after = st\<lparr>error := Some msgNoPrompt\<rparr>, invoked = [], uncaught = None\<rparr>
      else
        (let st1 = st\<lparr>processing := True, error := None\<rparr>
         in case simulateEvaluation (selected st) (promptPayload st) of
              Inl e \<Rightarrow>
                \<lparr>after = st1, invoked = [(selected st, promptPayload st)], uncaught = Some e\<rparr>
            | Inr result \<Rightarrow>
                \<lparr>after = st1\<lparr>simulation := Some result, userChoice := None,
                               processing := False\<rparr>,
                 invoked = [(selected st, promptPayload st)], uncaught = None\<rparr>))"

text \<open>
  The events of the page, each with the handler it runs. The submit button is disabled
  while \<open>processing\<close> holds; the step function accepts \<open>Submit\<close> in every state, so
  what holds of every run here holds of the page's runs.
\<close>

datatype event =
    ToggleModel js_string
  | PromptChange js_string
  | ImageUpload "upload_file option"
  | ReaderLoad upload_file "js_string option"
  | ResetAttachment
  | Submit
  | ChooseModel js_string

fun step :: "engine \<Rightarrow> page_state \<Rightarrow> event \<Rightarrow> page_state" where
  "step eng st (ToggleModel i) = handleToggleModel i st"
| "step eng st (PromptChange v) = st\<lparr>promptText := v\<rparr>"
| "step eng st (ImageUpload f) = handleImageUpload f st"
| "step eng st (ReaderLoad f r) = readerOnload f r st"
| "step eng st ResetAttachment = resetAttachment st"
| "step eng st Submit = after (handleSubmit eng st)"
| "step eng st (ChooseModel i) = st\<lparr>userChoice := Some i\<rparr>"

definition run :: "engine \<Rightarrow> event list \<Rightarrow> page_state" where
  "run eng evs = foldl (step eng) initialState evs"

section \<open>Derived values of the page\<close>

text \<open>
  \<^verbatim>\<open>Array.prototype.sort\<close> is stable, so with a consistent comparator its result is
  the stable sort of the array: each element, taken from the right, is put in front of
  the first element it does not compare greater than. \<open>comparefn x y\<close> is negative when
  \<open>x\<close> sorts first.
\<close>

fun insertBy :: "('a \<Rightarrow> 'a \<Rightarrow> score) \<Rightarrow> 'a \<Rightarrow> 'a list \<Rightarrow> 'a list" where
  "insertBy comparefn x [] = [x]"
| "insertBy comparefn x (y # ys) =
     (if comparefn x y \<le> 0 then x # y # ys else y # insertBy comparefn x ys)"

definition arraySort :: "('a \<Rightarrow> 'a \<Rightarrow> score) \<Rightarrow> 'a list \<Rightarrow> 'a list" where
  "arraySort comparefn xs = foldr (insertBy comparefn) xs []"

definition leaderboard :: "page_state \<Rightarrow> aggregated_score list" where
  "leaderboard st =
     (case simulation st of
        None \<Rightarrow> []
      | Some sim \<Rightarrow> arraySort (\<lambda>a b. agg_overall b - agg_overall a) (aggregates sim))"

definition crossEvaluationsByModel :: "page_state \<Rightarrow> js_string \<Rightarrow> cross_evaluation list option" where
  "crossEvaluationsByModel st modelId =
     (case simulation st of
        None \<Rightarrow> None
      | Some sim \<Rightarrow> Some (filter (\<lambda>item. targetModelId item = modelId) (crossEvaluations sim)))"

definition geminiTop :: "page_state \<Rightarrow> gemini_ranking_entry option" where
  "geminiTop st =
     (case simulation st of
        None \<Rightarrow> None
      | Some sim \<Rightarrow> find (\<lambda>item. placement item = 1) (geminiRanking sim))"

text \<open>
  \<^verbatim>\<open>getModelById\<close> is imported from \<^verbatim>\<open>lib/models\<close> and is an argument wherever the page
  calls it; \<^verbatim>\<open>metaEvaluator\<close> is its value at \<^verbatim>\<open>META_EVALUATOR_ID\<close>. The test
  \<^verbatim>\<open>!userChoice\<close> holds of \<^verbatim>\<open>null\<close> and of the empty string. \<open>nameOr m s\<close> is the
  expression \<^verbatim>\<open>m?.name ?? s\<close>, which the page writes out at each place.
\<close>

record alignment =
  aligned :: bool
  message :: js_string

definition nameOr :: "model option \<Rightarrow> js_string \<Rightarrow> js_string" where
  "nameOr m fallback = (case m of Some x \<Rightarrow> model_name x | None \<Rightarrow> fallback)"

definition alignmentState ::
  "(js_string \<Rightarrow> model option) \<Rightarrow> model option \<Rightarrow> page_state \<Rightarrow> alignment option" where
  "alignmentState getModelById metaEvaluator st =
     (case simulation st of
        None \<Rightarrow> None
      | Some sim \<Rightarrow>
         (case userChoice st of
            None \<Rightarrow> None
          | Some uc \<Rightarrow>
             if uc = [] then None
             else
              (case geminiTop st of
                 None \<Rightarrow> None
               | Some gTop \<Rightarrow>
                  (let isAligned = (uc = gr_modelId gTop);
                       userModel = getModelById uc;
                       geminiModel = getModelById (gr_modelId gTop)
                   in Some
                     \<lparr>aligned = isAligned,
                      message =
                        (if isAligned then
                           lit ''Alignment confirmed. You and ''
                           @ nameOr metaEvaluator (lit ''Gemini'')
                           @ lit '' both favored '' @ nameOr userModel uc @ lit ''.''
                         else
                           lit ''Divergence detected. You preferred ''
                           @ nameOr userModel uc @ lit '', while ''
                           @ nameOr metaEvaluator (lit ''Gemini'')
                           @ lit '' selected '' @ nameOr geminiModel (gr_modelId gTop)
                           @ lit ''.'')\<rparr>))))"

section \<open>What the page renders\<close>

text \<open>
  The JSX is modelled by the data it shows. \<open>topThreeMap\<close> is the \<^verbatim>\<open>Map\<close> built from
  \<^verbatim>\<open>simulation?.topThree\<close>: of two entries with one id the later one is kept.
\<close>

definition topThreeMap :: "page_state \<Rightarrow> js_string \<Rightarrow> aggregated_score option" where
  "topThreeMap st =
     (case simulation st of
        None \<Rightarrow> Map.empty
      | Some sim \<Rightarrow> map_of (rev (map (\<lambda>item. (agg_modelId item, item)) (topThree sim))))"

record peer_note =
  note_judge :: js_string
  note_overall :: score
  note_rationale :: js_string

record response_card =
  card_title :: js_string
  card_vendor :: "js_string option"
  card_supports :: "js_string list"
  card_overall :: score
  card_content :: js_string
  card_highlights :: "js_string list"
  card_metrics :: metrics
  card_peerNotes :: "peer_note list"

definition renderResponseCard ::
  "(js_string \<Rightarrow> model option) \<Rightarrow> page_state \<Rightarrow> model_response \<Rightarrow> aggregated_score
     \<Rightarrow> response_card" where
  "renderResponseCard getModelById st response aggregate =
     (let model = getModelById (resp_modelId response);
          peerEvaluations =
            (case crossEvaluationsByModel st (resp_modelId response) of
               Some es \<Rightarrow> es | None \<Rightarrow> [])
      in \<lparr>card_title = nameOr model (resp_modelId response),
          card_vendor = map_option vendor model,
          card_supports = resp_modalitySupport response,
          card_overall = agg_overall aggregate,
          card_content = content response,
          card_highlights = highlights response,
          card_metrics = meanMetrics aggregate,
          card_peerNotes =
            map (\<lambda>evaluation.
                   \<lparr>note_judge =
                      nameOr (getModelById (judgeModelId evaluation)) (judgeModelId evaluation),
                    note_overall = ce_overall evaluation,
                    note_rationale = ce_rationale evaluation\<rparr>)
                (take 3 peerEvaluations)\<rparr>)"

text \<open>One entry per response; \<open>None\<close> where the page returns \<^verbatim>\<open>null\<close> for want of an aggregate.\<close>

definition responseCards ::
  "(js_string \<Rightarrow> model option) \<Rightarrow> page_state \<Rightarrow> response_card option list" where
  "responseCards getModelById st =
     (case simulation st of
        None \<Rightarrow> []
      | Some sim \<Rightarrow>
          map (\<lambda>response.
                 (case (case find (\<lambda>item. agg_modelId item = resp_modelId response)
                                 (aggregates sim) of
                          Some a \<Rightarrow> Some a
                        | None \<Rightarrow> topThreeMap st (resp_modelId response)) of
                    None \<Rightarrow> None
                  | Some aggregate \<Rightarrow>
                      Some (renderResponseCard getModelById st response aggregate)))
              (responses sim))"

record leaderboard_row =
  row_rank :: nat
  row_model :: js_string
  row_metrics :: metrics
  row_overall :: score

definition leaderboardRows ::
  "(js_string \<Rightarrow> model option) \<Rightarrow> page_state \<Rightarrow> leaderboard_row list" where
  "leaderboardRows getModelById st =
     map (\<lambda>(index, entry).
            \<lparr>row_rank = index + 1,
             row_model = nameOr (getModelById (agg_modelId entry)) (agg_modelId entry),
             row_metrics = meanMetrics entry,
             row_overall = agg_overall entry\<rparr>)
         (enumerate 0 (leaderboard st))"

record rank_card =
  rank_label :: nat
  rank_model :: js_string
  rank_peerOverall :: "score option"
  rank_confidence :: score
  rank_rationale :: js_string

definition rankCards ::
  "(js_string \<Rightarrow> model option) \<Rightarrow> page_state \<Rightarrow> rank_card list" where
  "rankCards getModelById st =
     (case simulation st of
        None \<Rightarrow> []
      | Some sim \<Rightarrow>
          map (\<lambda>ranking.
                 \<lparr>rank_label = placement ranking,
                  rank_model = nameOr (getModelById (gr_modelId ranking)) (gr_modelId ranking),
                  rank_peerOverall =
                    map_option agg_overall (topThreeMap st (gr_modelId ranking)),
                  rank_confidence = confidence ranking,
                  rank_rationale = gr_rationale ranking\<rparr>)
              (geminiRanking sim))"

record radio_item =
  radio_value :: js_string
  radio_checked :: bool
  radio_label :: js_string
  radio_overall :: score

definition radioItems ::
  "(js_string \<Rightarrow> model option) \<Rightarrow> page_state \<Rightarrow> radio_item list" where
  "radioItems getModelById st =
     (case simulation st of
        None \<Rightarrow> []
      | Some sim \<Rightarrow>
          map (\<lambda>response.
                 \<lparr>radio_value = resp_modelId response,
                  radio_checked = (userChoice st = Some (resp_modelId response)),
                  radio_label =
                    nameOr (getModelById (resp_modelId response)) (resp_modelId response),
                  radio_overall =
                    (case find (\<lambda>item. agg_modelId item = resp_modelId response)
                               (aggregates sim) of
                       Some a \<Rightarrow> agg_overall a
                     | None \<Rightarrow> 0)\<rparr>)
              (responses sim))"

section \<open>The engine behind \<^verbatim>\<open>simulateEvaluation\<close>\<close>

text \<open>
  \<^verbatim>\<open>lib/models\<close> and \<^verbatim>\<open>lib/simulation\<close> are not among the sources. What follows is
  their specification, written as functions. The text templates, the scoring formula
  and the meta-evaluator's rescoring are left open by the specification and are
  arguments (\<open>flavour\<close>).
\<close>

text \<open>Modelled from the spec: \<^verbatim>\<open>getModelById\<close> of \<^verbatim>\<open>lib/models\<close>, a pure lookup over the
  static catalog, absent for an unknown id.\<close>

definition getModelById :: "model list \<Rightarrow> js_string \<Rightarrow> model option" where
  "getModelById catalog i = find (\<lambda>m. model_id m = i) catalog"

text \<open>Modelled from the spec: the parts of \<^verbatim>\<open>lib/simulation\<close> the specification leaves to
  the implementer: the response template (content and highlights, a function of model
  and prompt), the peer scoring (a function of judge id, target id and target content,
  giving metrics and rationale), and the meta-evaluator's rescoring of a top-three
  candidate (score, confidence, rationale).\<close>

record flavour =
  compose :: "model \<Rightarrow> prompt_payload \<Rightarrow> js_string \<times> js_string list"
  judge :: "js_string \<Rightarrow> js_string \<Rightarrow> js_string \<Rightarrow> metrics \<times> js_string"
  adjudicate ::
    "aggregated_score \<Rightarrow> model_response list \<Rightarrow> prompt_payload \<Rightarrow> score \<times> score \<times> js_string"

text \<open>Modelled from the spec: what an invocation could read besides its arguments, the
  wall clock (\<^verbatim>\<open>Date.now()\<close>) and the unseeded generator (successive values of
  \<^verbatim>\<open>Math.random()\<close>). The specification forbids the engine both.\<close>

record ambient =
  clock :: nat
  entropy :: "nat \<Rightarrow> score"

text \<open>Modelled from the spec: the Response Synthesizer of \<^verbatim>\<open>lib/simulation\<close>, one response
  per selected model, in the order of the selection.\<close>

definition synthesize :: "flavour \<Rightarrow> model \<Rightarrow> prompt_payload \<Rightarrow> model_response" where
  "synthesize fl m prompt =
     \<lparr>resp_modelId = model_id m,
      content = fst (compose fl m prompt),
      highlights = snd (compose fl m prompt),
      resp_modalitySupport = modalitySupport m\<rparr>"

text \<open>Modelled from the spec: the range \<open>[0,10]\<close> of a metric score in
  \<^verbatim>\<open>lib/simulation\<close>; a score outside it is moved to the nearer bound.\<close>

definition clampScore :: "score \<Rightarrow> score" where
  "clampScore x = max 0 (min 10 x)"

text \<open>Modelled from the spec: the fixed weights by which \<^verbatim>\<open>lib/simulation\<close> combines the
  four metrics into \<open>overall\<close>; the specification proposes equal weighting.\<close>

definition weighted :: "metrics \<Rightarrow> score" where
  "weighted m = (quality m + clarity m + relevance m + accuracy m) / 4"

text \<open>Modelled from the spec: one peer judgment of \<^verbatim>\<open>lib/simulation\<close>, in which the judge
  scores the target's response: four metrics, their weighted \<open>overall\<close>, a rationale.\<close>

definition crossEvaluate :: "flavour \<Rightarrow> model_response \<Rightarrow> model_response \<Rightarrow> cross_evaluation" where
  "crossEvaluate fl j t =
     (let verdict = judge fl (resp_modelId j) (resp_modelId t) (content t);
          ms = \<lparr>quality = clampScore (quality (fst verdict)),
                clarity = clampScore (clarity (fst verdict)),
                relevance = clampScore (relevance (fst verdict)),
                accuracy = clampScore (accuracy (fst verdict))\<rparr>
      in \<lparr>judgeModelId = resp_modelId j,
          targetModelId = resp_modelId t,
          ce_overall = weighted ms,
          ce_metrics = ms,
          ce_rationale = snd verdict\<rparr>)"

text \<open>Modelled from the spec: the Cross-Evaluation Matrix Builder of \<^verbatim>\<open>lib/simulation\<close>, a
  judgment for every ordered pair of a judge and a different target among the
  responses.\<close>

definition buildMatrix :: "flavour \<Rightarrow> model_response list \<Rightarrow> cross_evaluation list" where
  "buildMatrix fl rs =
     concat (map (\<lambda>j. map (crossEvaluate fl j)
                          (filter (\<lambda>t. resp_modelId t \<noteq> resp_modelId j) rs)) rs)"

text \<open>Modelled from the spec: the arithmetic mean used by the Aggregator of
  \<^verbatim>\<open>lib/simulation\<close>, with the default 0 for no value instead of a division error.\<close>

definition mean :: "score list \<Rightarrow> score" where
  "mean xs = (if xs = [] then 0 else sum_list xs / of_nat (length xs))"

text \<open>Modelled from the spec: the Aggregator of \<^verbatim>\<open>lib/simulation\<close>, the mean of each
  metric and of \<open>overall\<close> over the judgments that target one model id.\<close>

definition aggregateFor :: "cross_evaluation list \<Rightarrow> js_string \<Rightarrow> aggregated_score" where
  "aggregateFor evals i =
     (let incoming = filter (\<lambda>e. targetModelId e = i) evals
      in \<lparr>agg_modelId = i,
          meanMetrics =
            \<lparr>quality = mean (map (\<lambda>e. quality (ce_metrics e)) incoming),
             clarity = mean (map (\<lambda>e. clarity (ce_metrics e)) incoming),
             relevance = mean (map (\<lambda>e. relevance (ce_metrics e)) incoming),
             accuracy = mean (map (\<lambda>e. accuracy (ce_metrics e)) incoming)\<rparr>,
          agg_overall = mean (map ce_overall incoming)\<rparr>)"

text \<open>Modelled from the spec: the lexicographic order of model ids (by code units) that
  the ranking of \<^verbatim>\<open>lib/simulation\<close> uses as its last tie-break.\<close>

fun lexLess :: "js_string \<Rightarrow> js_string \<Rightarrow> bool" where
  "lexLess [] [] = False"
| "lexLess [] (y # ys) = True"
| "lexLess (x # xs) [] = False"
| "lexLess (x # xs) (y # ys) = (x < y \<or> (x = y \<and> lexLess xs ys))"

text \<open>Modelled from the spec: the ranking order of the Aggregator of \<^verbatim>\<open>lib/simulation\<close>,
  as a comparator: descending \<open>overall\<close>, then higher mean accuracy, then the
  lexicographically smaller model id.\<close>

definition rankCompare :: "aggregated_score \<Rightarrow> aggregated_score \<Rightarrow> score" where
  "rankCompare a b =
     (if agg_overall a \<noteq> agg_overall b then agg_overall b - agg_overall a
      else if accuracy (meanMetrics a) \<noteq> accuracy (meanMetrics b)
        then accuracy (meanMetrics b) - accuracy (meanMetrics a)
      else if lexLess (agg_modelId a) (agg_modelId b) then - 1
      else if agg_modelId a = agg_modelId b then 0
      else 1)"

text \<open>Modelled from the spec: the Meta-Evaluator Ranker of \<^verbatim>\<open>lib/simulation\<close>. It rescores
  the top three and places them by descending score; confidence lies in \<open>[0,1]\<close>.\<close>

definition metaRank ::
  "flavour \<Rightarrow> aggregated_score list \<Rightarrow> model_response list \<Rightarrow> prompt_payload
     \<Rightarrow> gemini_ranking_entry list" where
  "metaRank fl top3 rs prompt =
     map (\<lambda>(k, (a, v)).
            \<lparr>gr_modelId = agg_modelId a,
             placement = k + 1,
             confidence = max 0 (min 1 (fst (snd v))),
             gr_rationale = snd (snd v)\<rparr>)
         (enumerate 0
            (arraySort (\<lambda>x y. fst (snd y) - fst (snd x))
               (map (\<lambda>a. (a, adjudicate fl a rs prompt)) top3)))"

text \<open>Modelled from the spec: the pipeline of \<^verbatim>\<open>lib/simulation\<close> for a validated
  submission: synthesizer, matrix builder, aggregator (one aggregate per selected id,
  top three by the ranking order), meta-evaluator ranker.\<close>

definition runPipeline ::
  "model list \<Rightarrow> flavour \<Rightarrow> js_string list \<Rightarrow> prompt_payload \<Rightarrow> simulation_outcome" where
  "runPipeline catalog fl selectedModelIds prompt =
     (let rs = map (\<lambda>m. synthesize fl m prompt)
                   (List.map_filter (getModelById catalog) selectedModelIds);
          evals = buildMatrix fl rs;
          aggs = map (aggregateFor evals) selectedModelIds;
          top3 = take 3 (arraySort rankCompare aggs)
      in \<lparr>responses = rs,
          crossEvaluations = evals,
          aggregates = aggs,
          topThree = top3,
          geminiRanking = metaRank fl top3 rs prompt\<rparr>)"

text \<open>Modelled from the spec: \<^verbatim>\<open>simulateEvaluation\<close> of \<^verbatim>\<open>lib/simulation\<close>. It fails with
  \<open>InvalidSelection\<close> when the selection has fewer than 4 or more than 5 ids, an unknown
  id or a duplicate, and with \<open>InvalidPrompt\<close> when the prompt text is empty after
  trimming, in both cases before any synthesis; otherwise it returns the outcome of
  the pipeline. The ambient values are within its reach and it uses none of them.\<close>

definition simulateEvaluation ::
  "model list \<Rightarrow> flavour \<Rightarrow> ambient \<Rightarrow> js_string list \<Rightarrow> prompt_payload
     \<Rightarrow> engine_error + simulation_outcome" where
  "simulateEvaluation catalog fl amb selectedModelIds prompt =
     (if length selectedModelIds < 4 \<or> length selectedModelIds > 5
         \<or> (\<exists>i \<in> set selectedModelIds. getModelById catalog i = None)
         \<or> \<not> distinct selectedModelIds
      then Inl InvalidSelection
      else if trim (payload_text prompt) = [] then Inl InvalidPrompt
      else Inr (runPipeline catalog fl selectedModelIds prompt))"

section \<open>Example values\<close>

text \<open>
  Concrete inputs at which the theorems below are exercised. The catalog entries are
  examples: the real \<^verbatim>\<open>MODEL_OPTIONS\<close> is not among the sources.
\<close>

definition exampleModel :: "string \<Rightarrow> model" where
  "exampleModel s =
     \<lparr>model_id = lit s, model_name = lit ''Model '' @ lit s, vendor = lit ''Vendor'',
      capabilities = [lit ''text''], modalitySupport = [lit ''text'', lit ''image''],
      release = lit ''2024'', description = lit ''An example entry''\<rparr>"

definition exampleCatalog :: "model list" where
  "exampleCatalog =
     map exampleModel [''gpt'', ''claude'', ''llama'', ''mistral'', ''qwen'', ''gemini'']"

definition exampleIds :: "js_string list" where
  "exampleIds = [lit ''gpt'', lit ''claude'', lit ''llama'', lit ''mistral'']"

definition exampleMetrics :: "score \<Rightarrow> metrics" where
  "exampleMetrics acc = \<lparr>quality = 6, clarity = 6, relevance = 6, accuracy = acc\<rparr>"

definition aggGpt :: aggregated_score where
  "aggGpt = \<lparr>agg_modelId = lit ''gpt'', meanMetrics = exampleMetrics 5, agg_overall = 7\<rparr>"

definition aggClaude :: aggregated_score where
  "aggClaude = \<lparr>agg_modelId = lit ''claude'', meanMetrics = exampleMetrics 9, agg_overall = 7\<rparr>"

definition aggLlama :: aggregated_score where
  "aggLlama = \<lparr>agg_modelId = lit ''llama'', meanMetrics = exampleMetrics 8, agg_overall = 8\<rparr>"

definition aggMistral :: aggregated_score where
  "aggMistral = \<lparr>agg_modelId = lit ''mistral'', meanMetrics = exampleMetrics 4, agg_overall = 6\<rparr>"

definition exampleResponse :: "js_string \<Rightarrow> model_response" where
  "exampleResponse i =
     \<lparr>resp_modelId = i, content = lit ''An answer'', highlights = [lit ''short''],
      resp_modalitySupport = [lit ''text'']\<rparr>"

definition exampleRanking :: "string \<Rightarrow> nat \<Rightarrow> gemini_ranking_entry" where
  "exampleRanking s k =
     \<lparr>gr_modelId = lit s, placement = k, confidence = 1 / 2, gr_rationale = lit ''Because''\<rparr>"

definition exampleOutcome :: simulation_outcome where
  "exampleOutcome =
     \<lparr>responses = map exampleResponse exampleIds,
      crossEvaluations = [],
      aggregates = [aggGpt, aggClaude, aggLlama, aggMistral],
      topThree = [aggLlama, aggGpt, aggClaude],
      geminiRanking =
        [exampleRanking ''claude'' 1, exampleRanking ''llama'' 2, exampleRanking ''gpt'' 3]\<rparr>"

definition exampleEngine :: engine where
  "exampleEngine ids p = Inr exampleOutcome"

text \<open>A lookup that knows one model only, so that the other ids are absent.\<close>

definition exampleLookup :: "js_string \<Rightarrow> model option" where
  "exampleLookup i = (if i = lit ''gpt'' then Some (exampleModel ''gpt'') else None)"

definition shownState :: page_state where
  "shownState =
     \<lparr>selected = exampleIds, promptText = lit ''Summarize quarterly earnings'',
      imageAttachment = None, simulation = Some exampleOutcome, processing = False,
      error = None, userChoice = Some (lit ''claude'')\<rparr>"

definition exampleFlavour :: flavour where
  "exampleFlavour =
     \<lparr>compose = (\<lambda>m p. (model_name m @ lit '': '' @ payload_text p, [vendor m])),
      judge = (\<lambda>j t c. (exampleMetrics (of_nat (length c)), t)),
      adjudicate = (\<lambda>a rs p. (agg_overall a, 1 / 2, agg_modelId a))\<rparr>"

definition exampleAmbient :: ambient where
  "exampleAmbient = \<lparr>clock = 0, entropy = (\<lambda>k. 0)\<rparr>"

definition examplePrompt :: prompt_payload where
  "examplePrompt =
     \<lparr>payload_text = lit ''Summarize quarterly earnings'', imageFileName = None,
      imageDataUrl = None, modality = TextOnly\<rparr>"

text \<open>A state with an image attached and a prompt with white space around it.\<close>

definition attachedState :: page_state where
  "attachedState =
     shownState\<lparr>promptText := lit '' Describe the chart  '',
                imageAttachment := Some \<lparr>att_name = lit ''chart.png'',
                                         dataUrl = lit ''data:image/png;base64,AAAA''\<rparr>\<rparr>"

text \<open>Six toggles of six different models, from the initial state.\<close>

definition sixToggles :: "event list" where
  "sixToggles =
     map (\<lambda>s. ToggleModel (lit s)) [''gpt'', ''claude'', ''llama'', ''mistral'', ''qwen'', ''phi'']"

text \<open>
  An engine that returns what it was given: one response per id it received, holding
  the text, the file name, the data URL and the modality of the payload it received.
\<close>

definition echoOutcome :: "js_string list \<Rightarrow> prompt_payload \<Rightarrow> simulation_outcome" where
  "echoOutcome ids p =
     \<lparr>responses =
        map (\<lambda>i. \<lparr>resp_modelId = i,
                   content = payload_text p,
                   highlights =
                     (case imageFileName p of None \<Rightarrow> [] | Some n \<Rightarrow> [n])
                     @ (case imageDataUrl p of None \<Rightarrow> [] | Some u \<Rightarrow> [u]),
                   resp_modalitySupport =
                     [case modality p of TextOnly \<Rightarrow> lit ''text''
                                       | Multimodal \<Rightarrow> lit ''multimodal'']\<rparr>) ids,
      crossEvaluations = [], aggregates = [], topThree = [], geminiRanking = []\<rparr>"

definition echoEngine :: engine where
  "echoEngine ids p = Inr (echoOutcome ids p)"

text \<open>An engine that throws on every call.\<close>

definition failingEngine :: engine where
  "failingEngine ids p = Inl InvalidPrompt"

section \<open>An invariant of the page's runs\<close>

text \<open>
  The selection holds no id twice and at most \<^verbatim>\<open>MAX_MODELS\<close> ids, and the error shown
  is not the one of the too-many branch of \<^verbatim>\<open>handleSubmit\<close>.
\<close>

definition selectionOk :: "page_state \<Rightarrow> bool" where
  "selectionOk st \<longleftrightarrow>
     distinct (selected st) \<and> length (selected st) \<le> MAX_MODELS \<and> error st \<noteq> Some msgTooMany"

section \<open>Properties\<close>

subsection \<open>Trimming\<close>

lemma trim_empty_iff: "trim s = [] \<longleftrightarrow> (\<forall>c \<in> set s. isWhiteSpace c)"
proof -
  have "trim s = [] \<longleftrightarrow> (\<forall>c \<in> set (dropWhile isWhiteSpace s). isWhiteSpace c)"
    by (simp add: trim_def)
  also have "\<dots> \<longleftrightarrow> dropWhile isWhiteSpace s = []"
  proof
    assume a: "\<forall>c \<in> set (dropWhile isWhiteSpace s). isWhiteSpace c"
    show "dropWhile isWhiteSpace s = []"
    proof (rule ccontr)
      assume n: "dropWhile isWhiteSpace s \<noteq> []"
      then have "\<not> isWhiteSpace (hd (dropWhile isWhiteSpace s))" by (rule hd_dropWhile)
      moreover from n have "hd (dropWhile isWhiteSpace s) \<in> set (dropWhile isWhiteSpace s)" by simp
      ultimately show False using a by blast
    qed
  qed (auto dest: set_dropWhileD)
  also have "\<dots> \<longleftrightarrow> (\<forall>c \<in> set s. isWhiteSpace c)"
    by simp
  finally show ?thesis .
qed

lemma trim_decompose:
  "\<exists>pre post. s = pre @ trim s @ post
     \<and> (\<forall>c \<in> set pre. isWhiteSpace c) \<and> (\<forall>c \<in> set post. isWhiteSpace c)"
proof -
  define d where "d = dropWhile isWhiteSpace s"
  define r where "r = rev d"
  have 1: "s = takeWhile isWhiteSpace s @ d" by (simp add: d_def)
  have "rev (takeWhile isWhiteSpace r @ dropWhile isWhiteSpace r) = rev r"
    by (simp only: takeWhile_dropWhile_id)
  then have "rev (dropWhile isWhiteSpace r) @ rev (takeWhile isWhiteSpace r) = d"
    by (simp only: rev_append r_def rev_rev_ident)
  moreover have "trim s = rev (dropWhile isWhiteSpace r)"
    by (simp add: trim_def r_def d_def)
  ultimately have 3: "d = trim s @ rev (takeWhile isWhiteSpace r)" by simp
  have "s = takeWhile isWhiteSpace s @ trim s @ rev (takeWhile isWhiteSpace r)"
    using 1 3 by simp
  moreover have "\<forall>c \<in> set (takeWhile isWhiteSpace s). isWhiteSpace c"
    by (auto dest: set_takeWhileD)
  moreover have "\<forall>c \<in> set (rev (takeWhile isWhiteSpace r)). isWhiteSpace c"
    by (auto dest: set_takeWhileD)
  ultimately show ?thesis by blast
qed

lemma trim_ends:
  assumes "trim s \<noteq> []"
  shows "\<not> isWhiteSpace (hd (trim s)) \<and> \<not> isWhiteSpace (last (trim s))"
proof -
  define d where "d = dropWhile isWhiteSpace s"
  define e where "e = dropWhile isWhiteSpace (rev d)"
  have t: "trim s = rev e" by (simp add: trim_def e_def d_def)
  with assms have e: "e \<noteq> []" by simp
  then have d: "d \<noteq> []" by (auto simp: e_def)
  have "\<not> isWhiteSpace (hd e)" using e unfolding e_def by (rule hd_dropWhile)
  then have A: "\<not> isWhiteSpace (last (trim s))" using e by (simp add: t last_rev)
  have hd_d: "\<not> isWhiteSpace (hd d)" using d unfolding d_def by (rule hd_dropWhile)
  have "rev d = takeWhile isWhiteSpace (rev d) @ e" by (simp add: e_def)
  then have "last (rev d) = last e" using e by (metis last_appendR)
  then have "last e = hd d" using d by (simp add: last_rev)
  then have "hd (trim s) = hd d" using e by (simp add: t hd_rev)
  then show ?thesis using A hd_d by simp
qed

subsection \<open>The leaderboard\<close>

lemma arraySort_descending:
  "arraySort (\<lambda>a b. k b - k a) xs = sort_key (\<lambda>a. - k a) xs"
proof -
  have "insertBy (\<lambda>a b. k b - k a) x ys = insort_key (\<lambda>a. - k a) x ys" for x ys
    by (induction ys) auto
  then have "insertBy (\<lambda>a b. k b - k a) = insort_key (\<lambda>a. - k a)" by (intro ext)
  then show ?thesis by (simp add: arraySort_def sort_key_def)
qed

text \<open>
  C1, as the claim states it, fails. The page sorts by \<open>overall\<close> alone, with a stable
  sort: of two aggregates with equal \<open>overall\<close> the one that comes first in
  \<open>aggregates\<close> stays first, whatever their accuracy. Here \<open>gpt\<close> and \<open>claude\<close> both
  have \<open>overall\<close> 7, \<open>claude\<close> has the higher mean accuracy, and \<open>gpt\<close> is shown first.
\<close>

theorem leaderboard_tie_keeps_input_order:
  "leaderboard shownState = [aggLlama, aggGpt, aggClaude, aggMistral]
   \<and> agg_overall aggGpt = agg_overall aggClaude
   \<and> accuracy (meanMetrics aggGpt) < accuracy (meanMetrics aggClaude)"
  by (simp add: leaderboard_def shownState_def exampleOutcome_def arraySort_def
      aggGpt_def aggClaude_def aggLlama_def aggMistral_def exampleMetrics_def)

text \<open>
  C1, amended. Without a simulation the leaderboard is empty. With one, it is the
  aggregates sorted stably by descending \<open>overall\<close>: the same entries as often, \<open>overall\<close>
  never increasing down the list, and the entries of any one \<open>overall\<close> in the order
  they have in \<open>aggregates\<close>.
\<close>

theorem leaderboard_stable_descending:
  "(simulation st = None \<longrightarrow> leaderboard st = [])
   \<and> (\<forall>sim. simulation st = Some sim \<longrightarrow>
         mset (leaderboard st) = mset (aggregates sim)
       \<and> sorted_wrt (\<lambda>a b. agg_overall a \<ge> agg_overall b) (leaderboard st)
       \<and> (\<forall>v. filter (\<lambda>a. agg_overall a = v) (leaderboard st)
               = filter (\<lambda>a. agg_overall a = v) (aggregates sim)))"
proof -
  have "mset (leaderboard st) = mset (aggregates sim)
       \<and> sorted_wrt (\<lambda>a b. agg_overall a \<ge> agg_overall b) (leaderboard st)
       \<and> (\<forall>v. filter (\<lambda>a. agg_overall a = v) (leaderboard st)
               = filter (\<lambda>a. agg_overall a = v) (aggregates sim))"
    if s: "simulation st = Some sim" for sim
  proof -
    let ?k = "\<lambda>a. - agg_overall a"
    have lb: "leaderboard st = sort_key ?k (aggregates sim)"
      using s by (simp add: leaderboard_def arraySort_descending)
    have "sorted (map ?k (leaderboard st))" by (simp add: lb)
    then have so: "sorted_wrt (\<lambda>a b. agg_overall a \<ge> agg_overall b) (leaderboard st)"
      by (simp add: sorted_map sorted_wrt_iff_nth_less)
    have st: "filter (\<lambda>a. agg_overall a = v) (leaderboard st)
               = filter (\<lambda>a. agg_overall a = v) (aggregates sim)" for v
      using sort_key_stable [of ?k "- v" "aggregates sim"] by (simp add: lb)
    show ?thesis using so st by (simp add: lb)
  qed
  then show ?thesis by (simp add: leaderboard_def)
qed

theorem leaderboard_stable_descending_witness:
  "mset (leaderboard shownState) = mset [aggGpt, aggClaude, aggLlama, aggMistral]
   \<and> sorted_wrt (\<lambda>a b. agg_overall a \<ge> agg_overall b) (leaderboard shownState)
   \<and> filter (\<lambda>a. agg_overall a = 7) (leaderboard shownState) = [aggGpt, aggClaude]"
proof -
  have s: "simulation shownState = Some exampleOutcome" by (simp add: shownState_def)
  have a: "aggregates exampleOutcome = [aggGpt, aggClaude, aggLlama, aggMistral]"
    by (simp add: exampleOutcome_def)
  have f: "filter (\<lambda>a. agg_overall a = 7) [aggGpt, aggClaude, aggLlama, aggMistral] = [aggGpt, aggClaude]"
    by (simp add: aggGpt_def aggClaude_def aggLlama_def aggMistral_def)
  from leaderboard_stable_descending [of shownState] s a f show ?thesis by simp
qed

subsection \<open>Rejected submissions\<close>

text \<open>
  C2. A submission whose prompt text is empty or consists of white space only is
  rejected with an error: \<^verbatim>\<open>simulateEvaluation\<close> is not called, nothing is thrown, only
  the \<open>error\<close> cell changes, so the stored simulation is what it was. The error is the
  prompt message when the selection has 4 or 5 models, and a selection message
  otherwise (the selection is checked first).
\<close>

theorem blank_prompt_rejected:
  assumes "\<forall>c \<in> set (promptText st). isWhiteSpace c"
  shows "invoked (handleSubmit eng st) = []
       \<and> uncaught (handleSubmit eng st) = None
       \<and> error (after (handleSubmit eng st)) \<noteq> None
       \<and> simulation (after (handleSubmit eng st)) = simulation st
       \<and> after (handleSubmit eng st) = st\<lparr>error := error (after (handleSubmit eng st))\<rparr>
       \<and> (if MIN_MODELS \<le> length (selected st) \<and> length (selected st) \<le> MAX_MODELS
          then error (after (handleSubmit eng st)) = Some msgNoPrompt
          else error (after (handleSubmit eng st)) \<in> {Some msgTooFew, Some msgTooMany})"
  proof -
  from assms have "trim (promptText st) = []" by (simp add: trim_empty_iff)
  then show ?thesis by (simp add: handleSubmit_def)
qed

theorem blank_prompt_rejected_witness:
  "list_all isWhiteSpace (lit ''   '')
   \<and> invoked (handleSubmit exampleEngine (shownState\<lparr>promptText := lit ''   ''\<rparr>)) = []
   \<and> error (after (handleSubmit exampleEngine (shownState\<lparr>promptText := lit ''   ''\<rparr>)))
       = Some msgNoPrompt
   \<and> simulation (after (handleSubmit exampleEngine (shownState\<lparr>promptText := lit ''   ''\<rparr>)))
       = Some exampleOutcome"
proof -
  have t: "\<forall>c \<in> set (lit ''   ''). isWhiteSpace c"
    by (simp add: lit_def isWhiteSpace_def whiteSpaceUnits_def)
  have l: "length (selected shownState) = 4" by (simp add: shownState_def exampleIds_def)
  have s: "simulation shownState = Some exampleOutcome" by (simp add: shownState_def)
  from blank_prompt_rejected [of "shownState\<lparr>promptText := lit ''   ''\<rparr>" exampleEngine] t l s
  show ?thesis by (simp add: MIN_MODELS_def MAX_MODELS_def list_all_iff)
qed

text \<open>
  C3. A submission with fewer than 4 or more than 5 selected models is rejected with
  the matching error: \<^verbatim>\<open>simulateEvaluation\<close> is not called, nothing is thrown, and only
  the \<open>error\<close> cell changes, so the stored simulation is what it was.
\<close>

theorem wrong_size_selection_rejected:
  assumes "length (selected st) < MIN_MODELS \<or> length (selected st) > MAX_MODELS"
  shows "invoked (handleSubmit eng st) = []
       \<and> uncaught (handleSubmit eng st) = None
       \<and> simulation (after (handleSubmit eng st)) = simulation st
       \<and> after (handleSubmit eng st)
           = st\<lparr>error := Some (if length (selected st) < MIN_MODELS then msgTooFew
                               else msgTooMany)\<rparr>"
  using assms by (auto simp add: handleSubmit_def)

theorem wrong_size_selection_rejected_witness:
  "length (selected (shownState\<lparr>selected := [lit ''gpt'']\<rparr>)) < MIN_MODELS
   \<and> invoked (handleSubmit exampleEngine (shownState\<lparr>selected := [lit ''gpt'']\<rparr>)) = []
   \<and> after (handleSubmit exampleEngine (shownState\<lparr>selected := [lit ''gpt'']\<rparr>))
       = shownState\<lparr>selected := [lit ''gpt''], error := Some msgTooFew\<rparr>
   \<and> simulation (after (handleSubmit exampleEngine (shownState\<lparr>selected := [lit ''gpt'']\<rparr>)))
       = Some exampleOutcome"
proof -
  have l: "length (selected (shownState\<lparr>selected := [lit ''gpt'']\<rparr>)) < MIN_MODELS"
    by (simp add: MIN_MODELS_def)
  have s: "simulation shownState = Some exampleOutcome" by (simp add: shownState_def)
  from wrong_size_selection_rejected [of "shownState\<lparr>selected := [lit ''gpt'']\<rparr>" exampleEngine] l s
  show ?thesis by simp
qed

subsection \<open>The selectable models\<close>

text \<open>
  C6. The selectable list holds exactly the catalog entries whose id is not the
  meta-evaluator's, in catalog order and as often as the catalog has them; what is
  left out are the entries with the meta-evaluator's id, and that id is not offered.
\<close>

theorem selectable_is_catalog_without_meta:
  "set (selectableModels MODEL_OPTIONS META_EVALUATOR_ID)
     = {m \<in> set MODEL_OPTIONS. model_id m \<noteq> META_EVALUATOR_ID}
   \<and> META_EVALUATOR_ID \<notin> set (map model_id (selectableModels MODEL_OPTIONS META_EVALUATOR_ID))
   \<and> subseq (selectableModels MODEL_OPTIONS META_EVALUATOR_ID) MODEL_OPTIONS
   \<and> mset (selectableModels MODEL_OPTIONS META_EVALUATOR_ID)
       + mset (filter (\<lambda>m. model_id m = META_EVALUATOR_ID) MODEL_OPTIONS)
     = mset MODEL_OPTIONS"
proof -
  have "{#m \<in># mset MODEL_OPTIONS. model_id m \<noteq> META_EVALUATOR_ID#}
        + {#m \<in># mset MODEL_OPTIONS. model_id m = META_EVALUATOR_ID#} = mset MODEL_OPTIONS"
    using multiset_partition [of "mset MODEL_OPTIONS" "\<lambda>m. model_id m \<noteq> META_EVALUATOR_ID"]
    by simp
  then show ?thesis by (auto simp add: selectableModels_def)
qed

theorem selectable_is_catalog_without_meta_witness:
  "map model_id (selectableModels exampleCatalog (lit ''gemini''))
     = [lit ''gpt'', lit ''claude'', lit ''llama'', lit ''mistral'', lit ''qwen'']
   \<and> lit ''gemini'' \<notin> set (map model_id (selectableModels exampleCatalog (lit ''gemini'')))"
proof -
  have "map model_id (selectableModels exampleCatalog (lit ''gemini''))
     = [lit ''gpt'', lit ''claude'', lit ''llama'', lit ''mistral'', lit ''qwen'']"
    by (simp add: selectableModels_def exampleCatalog_def exampleModel_def lit_def)
  with selectable_is_catalog_without_meta [of exampleCatalog "lit ''gemini''"]
  show ?thesis by simp
qed

subsection \<open>Accepted submissions\<close>

text \<open>
  C7. A submission that passes the three checks calls \<^verbatim>\<open>simulateEvaluation\<close> once, with
  the selection and a payload \<open>p\<close>, and what the page does next is decided by the
  engine's result at exactly these arguments: an outcome returned there is the one
  stored (with the choice reset and processing ended), an exception thrown there is
  the one that escapes (with processing left on). The text of \<open>p\<close> is the trimmed
  prompt: it is not empty, the prompt is that text with white space before and after,
  and the text neither starts nor ends with white space. The modality is multimodal
  exactly when an image is attached, and text otherwise; file name and data URL are
  those of the attachment, and absent without one.
\<close>

theorem accepted_submission_payload:
  assumes "MIN_MODELS \<le> length (selected st)" and "length (selected st) \<le> MAX_MODELS"
    and "trim (promptText st) \<noteq> []"
  shows "\<exists>p. invoked (handleSubmit eng st) = [(selected st, p)]
           \<and> (\<forall>out. eng (selected st) p = Inr out \<longrightarrow>
                 simulation (after (handleSubmit eng st)) = Some out
                 \<and> uncaught (handleSubmit eng st) = None
                 \<and> after (handleSubmit eng st)
                     = st\<lparr>processing := False, error := None, simulation := Some out,
                          userChoice := None\<rparr>)
           \<and> (\<forall>e. eng (selected st) p = Inl e \<longrightarrow>
                 uncaught (handleSubmit eng st) = Some e
                 \<and> after (handleSubmit eng st) = st\<lparr>processing := True, error := None\<rparr>)
           \<and> payload_text p = trim (promptText st)
           \<and> payload_text p \<noteq> []
           \<and> (\<exists>pre post. promptText st = pre @ payload_text p @ post
                 \<and> (\<forall>c \<in> set pre. isWhiteSpace c) \<and> (\<forall>c \<in> set post. isWhiteSpace c))
           \<and> \<not> isWhiteSpace (hd (payload_text p))
           \<and> \<not> isWhiteSpace (last (payload_text p))
           \<and> (modality p = Multimodal \<longleftrightarrow> imageAttachment st \<noteq> None)
           \<and> (modality p = TextOnly \<longleftrightarrow> imageAttachment st = None)
           \<and> (case imageAttachment st of
                 None \<Rightarrow> imageFileName p = None \<and> imageDataUrl p = None
               | Some a \<Rightarrow> imageFileName p = Some (att_name a)
                           \<and> imageDataUrl p = Some (dataUrl a))"
proof -
  have i: "invoked (handleSubmit eng st) = [(selected st, promptPayload st)]"
    using assms by (simp add: handleSubmit_def Let_def split: sum.split)
  have r: "\<forall>out. eng (selected st) (promptPayload st) = Inr out \<longrightarrow>
                 simulation (after (handleSubmit eng st)) = Some out
                 \<and> uncaught (handleSubmit eng st) = None
                 \<and> after (handleSubmit eng st)
                     = st\<lparr>processing := False, error := None, simulation := Some out,
                          userChoice := None\<rparr>"
    using assms by (simp add: handleSubmit_def Let_def)
  have x: "\<forall>e. eng (selected st) (promptPayload st) = Inl e \<longrightarrow>
                 uncaught (handleSubmit eng st) = Some e
                 \<and> after (handleSubmit eng st) = st\<lparr>processing := True, error := None\<rparr>"
    using assms by (simp add: handleSubmit_def Let_def)
  have t: "payload_text (promptPayload st) = trim (promptText st)"
    by (simp add: promptPayload_def)
  have d: "\<exists>pre post. promptText st = pre @ payload_text (promptPayload st) @ post
                 \<and> (\<forall>c \<in> set pre. isWhiteSpace c) \<and> (\<forall>c \<in> set post. isWhiteSpace c)"
    unfolding t by (rule trim_decompose)
  have e: "\<not> isWhiteSpace (hd (payload_text (promptPayload st)))
         \<and> \<not> isWhiteSpace (last (payload_text (promptPayload st)))"
    unfolding t using assms(3) by (rule trim_ends)
  have m: "(modality (promptPayload st) = Multimodal \<longleftrightarrow> imageAttachment st \<noteq> None)
         \<and> (modality (promptPayload st) = TextOnly \<longleftrightarrow> imageAttachment st = None)"
    by (simp add: promptPayload_def)
  have a: "(case imageAttachment st of
                 None \<Rightarrow> imageFileName (promptPayload st) = None
                        \<and> imageDataUrl (promptPayload st) = None
               | Some a \<Rightarrow> imageFileName (promptPayload st) = Some (att_name a)
                           \<and> imageDataUrl (promptPayload st) = Some (dataUrl a))"
    by (simp add: promptPayload_def split: option.split)
  from i r x t d e m a assms(3) show ?thesis
    by (intro exI [of _ "promptPayload st"] conjI) simp_all
qed

theorem accepted_submission_payload_witness:
  "invoked (handleSubmit echoEngine attachedState)
     = [(exampleIds,
         \<lparr>payload_text = lit ''Describe the chart'',
          imageFileName = Some (lit ''chart.png''),
          imageDataUrl = Some (lit ''data:image/png;base64,AAAA''),
          modality = Multimodal\<rparr>)]
   \<and> simulation (after (handleSubmit echoEngine attachedState))
     = Some (echoOutcome exampleIds
               \<lparr>payload_text = lit ''Describe the chart'',
                imageFileName = Some (lit ''chart.png''),
                imageDataUrl = Some (lit ''data:image/png;base64,AAAA''),
                modality = Multimodal\<rparr>)
   \<and> uncaught (handleSubmit echoEngine attachedState) = None
   \<and> uncaught (handleSubmit failingEngine attachedState) = Some InvalidPrompt
   \<and> simulation (after (handleSubmit failingEngine attachedState)) = Some exampleOutcome"
proof -
  have t: "trim (promptText attachedState) = lit ''Describe the chart''"
    by (simp add: attachedState_def trim_def lit_def isWhiteSpace_def whiteSpaceUnits_def)
  have n: "lit ''Describe the chart'' \<noteq> []" by (simp add: lit_def)
  have s: "selected attachedState = exampleIds" by (simp add: attachedState_def shownState_def)
  have l: "length exampleIds = 4" by (simp add: exampleIds_def)
  have a: "imageAttachment attachedState
           = Some \<lparr>att_name = lit ''chart.png'', dataUrl = lit ''data:image/png;base64,AAAA''\<rparr>"
    by (simp add: attachedState_def)
  have k: "simulation attachedState = Some exampleOutcome"
    by (simp add: attachedState_def shownState_def)
  from accepted_submission_payload [of attachedState echoEngine]
  obtain p where p1: "invoked (handleSubmit echoEngine attachedState) = [(exampleIds, p)]"
    and p2: "\<forall>out. echoEngine exampleIds p = Inr out \<longrightarrow>
                 simulation (after (handleSubmit echoEngine attachedState)) = Some out
                 \<and> uncaught (handleSubmit echoEngine attachedState) = None"
    and "payload_text p = lit ''Describe the chart''"
    and "modality p = Multimodal"
    and "imageFileName p = Some (lit ''chart.png'')"
    and "imageDataUrl p = Some (lit ''data:image/png;base64,AAAA'')"
    using t n s l a by (auto simp add: MIN_MODELS_def MAX_MODELS_def)
  then have pe: "p = \<lparr>payload_text = lit ''Describe the chart'',
          imageFileName = Some (lit ''chart.png''),
          imageDataUrl = Some (lit ''data:image/png;base64,AAAA''),
          modality = Multimodal\<rparr>"
    by (cases p) simp
  have e: "echoEngine exampleIds p = Inr (echoOutcome exampleIds p)"
    by (simp add: echoEngine_def)
  from p2 e have q: "simulation (after (handleSubmit echoEngine attachedState))
                       = Some (echoOutcome exampleIds p)
                   \<and> uncaught (handleSubmit echoEngine attachedState) = None"
    by blast
  from accepted_submission_payload [of attachedState failingEngine]
  obtain p' where "\<forall>e. failingEngine exampleIds p' = Inl e \<longrightarrow>
                 uncaught (handleSubmit failingEngine attachedState) = Some e
                 \<and> after (handleSubmit failingEngine attachedState)
                     = attachedState\<lparr>processing := True, error := None\<rparr>"
    using t n s l by (auto simp add: MIN_MODELS_def MAX_MODELS_def)
  moreover have "failingEngine exampleIds p' = Inl InvalidPrompt"
    by (simp add: failingEngine_def)
  ultimately have f: "uncaught (handleSubmit failingEngine attachedState) = Some InvalidPrompt
     \<and> after (handleSubmit failingEngine attachedState)
         = attachedState\<lparr>processing := True, error := None\<rparr>"
    by blast
  from p1 q f k show ?thesis unfolding pe by simp
qed

subsection \<open>The selection\<close>

lemma lit_Cons: "lit (c # cs) = of_char c # lit cs"
  by (simp add: lit_def)

lemma messages_differ:
  "msgTooFew \<noteq> msgTooMany" "msgNoPrompt \<noteq> msgTooMany" "msgNotImage \<noteq> msgTooMany"
  unfolding msgTooFew_def msgTooMany_def msgNoPrompt_def msgNotImage_def
  by (simp_all only: lit_Cons list.inject) simp_all

lemma toggle_selected:
  "selected (handleToggleModel i st) =
     (if i \<in> set (selected st) then removeAll i (selected st)
      else if length (selected st) \<ge> MAX_MODELS then selected st
      else selected st @ [i])"
proof -
  have "filter (\<lambda>j. j \<noteq> i) xs = removeAll i xs" for xs
    by (induction xs) auto
  then show ?thesis by (simp add: handleToggleModel_def Let_def)
qed

lemma submit_keeps_selected: "selected (after (handleSubmit eng st)) = selected st"
  by (simp add: handleSubmit_def Let_def split: sum.split)

lemma submit_error:
  "length (selected st) \<le> MAX_MODELS \<Longrightarrow> error (after (handleSubmit eng st)) \<noteq> Some msgTooMany"
  by (simp add: handleSubmit_def Let_def messages_differ split: sum.split)

lemma toggle_selectionOk: "selectionOk st \<Longrightarrow> selectionOk (handleToggleModel i st)"
proof -
  assume ok: "selectionOk st"
  have e: "error (handleToggleModel i st) = error st" by (simp add: handleToggleModel_def)
  have "distinct (selected (handleToggleModel i st))"
    using ok by (simp add: toggle_selected selectionOk_def distinct_removeAll)
  moreover have "length (selected (handleToggleModel i st)) \<le> MAX_MODELS"
  proof -
    have "length (removeAll i (selected st)) \<le> length (selected st)" by simp
    moreover have "length (selected st) \<le> MAX_MODELS" using ok by (simp add: selectionOk_def)
    ultimately have "length (removeAll i (selected st)) \<le> MAX_MODELS" by (rule order_trans)
    then show ?thesis using ok by (auto simp add: toggle_selected selectionOk_def)
  qed
  ultimately show ?thesis using ok e by (simp add: selectionOk_def)
qed

lemma step_selectionOk: "selectionOk st \<Longrightarrow> selectionOk (step eng st ev)"
proof (cases ev)
  case (ToggleModel i)
  assume "selectionOk st"
  then show ?thesis by (simp add: ToggleModel toggle_selectionOk)
next
  case (PromptChange v)
  assume "selectionOk st"
  then show ?thesis by (simp add: PromptChange selectionOk_def)
next
  case (ImageUpload f)
  assume "selectionOk st"
  then show ?thesis
    by (simp add: ImageUpload selectionOk_def handleImageUpload_def messages_differ
        split: option.split)
next
  case (ReaderLoad f r)
  assume "selectionOk st"
  then show ?thesis
    by (simp add: ReaderLoad selectionOk_def readerOnload_def split: option.split)
next
  case ResetAttachment
  assume "selectionOk st"
  then show ?thesis by (simp add: ResetAttachment selectionOk_def resetAttachment_def)
next
  case Submit
  assume "selectionOk st"
  then show ?thesis
    by (simp add: Submit selectionOk_def submit_keeps_selected submit_error)
next
  case (ChooseModel i)
  assume "selectionOk st"
  then show ?thesis by (simp add: ChooseModel selectionOk_def)
qed

lemma foldl_selectionOk: "selectionOk st \<Longrightarrow> selectionOk (foldl (step eng) st evs)"
  by (induction evs arbitrary: st) (simp_all add: step_selectionOk)

lemma run_selectionOk: "selectionOk (run eng evs)"
  unfolding run_def by (rule foldl_selectionOk) (simp add: selectionOk_def initialState_def)

text \<open>
  C9. After any sequence of events from the initial state (toggles in particular) the
  selection has no id twice and at most 5 ids. Toggling a selected id removes it,
  toggling a new id at length 5 changes nothing, and toggling a new id below length 5
  appends it. So the guard \<^verbatim>\<open>selected.length > MAX_MODELS\<close> of \<^verbatim>\<open>handleSubmit\<close> is false
  in every state the page reaches, and its error message is never shown.
\<close>

theorem selection_distinct_at_most_five:
  "distinct (selected (run eng evs))
   \<and> length (selected (run eng evs)) \<le> MAX_MODELS
   \<and> (i \<in> set (selected (run eng evs)) \<longrightarrow>
        selected (handleToggleModel i (run eng evs)) = remove1 i (selected (run eng evs))
        \<and> i \<notin> set (selected (handleToggleModel i (run eng evs))))
   \<and> (i \<notin> set (selected (run eng evs)) \<and> length (selected (run eng evs)) = MAX_MODELS \<longrightarrow>
        handleToggleModel i (run eng evs) = run eng evs)
   \<and> (i \<notin> set (selected (run eng evs)) \<and> length (selected (run eng evs)) < MAX_MODELS \<longrightarrow>
        selected (handleToggleModel i (run eng evs)) = selected (run eng evs) @ [i])
   \<and> \<not> length (selected (run eng evs)) > MAX_MODELS
   \<and> error (after (handleSubmit eng (run eng evs))) \<noteq> Some msgTooMany
   \<and> error (run eng evs) \<noteq> Some msgTooMany"
proof -
  have ok: "selectionOk (run eng evs)" by (rule run_selectionOk)
  then have d: "distinct (selected (run eng evs))"
    and l: "length (selected (run eng evs)) \<le> MAX_MODELS"
    and e: "error (run eng evs) \<noteq> Some msgTooMany"
    by (simp_all add: selectionOk_def)
  have r: "removeAll i (selected (run eng evs)) = remove1 i (selected (run eng evs))"
    using d by (simp add: distinct_remove1_removeAll)
  have t1: "i \<in> set (selected (run eng evs)) \<longrightarrow>
        selected (handleToggleModel i (run eng evs)) = remove1 i (selected (run eng evs))
        \<and> i \<notin> set (selected (handleToggleModel i (run eng evs)))"
  proof
    assume m: "i \<in> set (selected (run eng evs))"
    then have "selected (handleToggleModel i (run eng evs)) = removeAll i (selected (run eng evs))"
      by (simp add: toggle_selected)
    moreover have "i \<notin> set (removeAll i (selected (run eng evs)))" by simp
    ultimately show "selected (handleToggleModel i (run eng evs)) = remove1 i (selected (run eng evs))
        \<and> i \<notin> set (selected (handleToggleModel i (run eng evs)))"
      using r by simp
  qed
  have t2: "i \<notin> set (selected (run eng evs)) \<and> length (selected (run eng evs)) = MAX_MODELS \<longrightarrow>
        handleToggleModel i (run eng evs) = run eng evs"
    by (simp add: handleToggleModel_def)
  have t3: "i \<notin> set (selected (run eng evs)) \<and> length (selected (run eng evs)) < MAX_MODELS \<longrightarrow>
        selected (handleToggleModel i (run eng evs)) = selected (run eng evs) @ [i]"
    by (simp add: toggle_selected)
  have n: "\<not> length (selected (run eng evs)) > MAX_MODELS" using l by simp
  from d l e t1 t2 t3 n submit_error [OF l] show ?thesis by blast
qed

theorem selection_distinct_at_most_five_witness:
  "selected (run exampleEngine sixToggles)
     = [lit ''gpt'', lit ''claude'', lit ''llama'', lit ''mistral'', lit ''qwen'']
   \<and> distinct (selected (run exampleEngine sixToggles))
   \<and> selected (handleToggleModel (lit ''claude'') (run exampleEngine sixToggles))
     = [lit ''gpt'', lit ''llama'', lit ''mistral'', lit ''qwen'']
   \<and> handleToggleModel (lit ''phi'') (run exampleEngine sixToggles)
     = run exampleEngine sixToggles
   \<and> error (after (handleSubmit exampleEngine (run exampleEngine sixToggles))) \<noteq> Some msgTooMany"
proof -
  have s: "selected (run exampleEngine sixToggles)
     = [lit ''gpt'', lit ''claude'', lit ''llama'', lit ''mistral'', lit ''qwen'']"
    by (simp add: run_def sixToggles_def initialState_def handleToggleModel_def MAX_MODELS_def
        lit_def)
  have c: "lit ''claude'' \<in> set (selected (run exampleEngine sixToggles))"
    unfolding s by simp
  have p: "lit ''phi'' \<notin> set (selected (run exampleEngine sixToggles))
           \<and> length (selected (run exampleEngine sixToggles)) = MAX_MODELS"
    unfolding s by (simp add: lit_def MAX_MODELS_def)
  have r: "remove1 (lit ''claude'') (selected (run exampleEngine sixToggles))
     = [lit ''gpt'', lit ''llama'', lit ''mistral'', lit ''qwen'']"
    unfolding s by (simp add: lit_def)
  from selection_distinct_at_most_five [of exampleEngine sixToggles "lit ''claude''"]
    selection_distinct_at_most_five [of exampleEngine sixToggles "lit ''phi''"] c p r s
  show ?thesis by simp
qed

subsection \<open>The alignment verdict\<close>

lemma alignmentState_Some:
  "alignmentState g m st = Some v \<longleftrightarrow>
     (\<exists>sim uc gt. simulation st = Some sim \<and> userChoice st = Some uc \<and> uc \<noteq> []
        \<and> find (\<lambda>item. placement item = 1) (geminiRanking sim) = Some gt
        \<and> v = \<lparr>aligned = (uc = gr_modelId gt),
                 message =
                   (if uc = gr_modelId gt then
                      lit ''Alignment confirmed. You and '' @ nameOr m (lit ''Gemini'')
                      @ lit '' both favored '' @ nameOr (g uc) uc @ lit ''.''
                    else
                      lit ''Divergence detected. You preferred '' @ nameOr (g uc) uc
                      @ lit '', while '' @ nameOr m (lit ''Gemini'') @ lit '' selected ''
                      @ nameOr (g (gr_modelId gt)) (gr_modelId gt) @ lit ''.'')\<rparr>)"
  by (auto simp add: alignmentState_def geminiTop_def Let_def split: option.splits)

text \<open>
  C10. A verdict exists only when there is a simulation, a user choice and an entry of
  \<open>geminiRanking\<close> with placement 1; then \<open>aligned\<close> holds exactly when the choice is
  the model id of the first such entry. Conversely, with a simulation, a choice that
  is not the empty string (which \<^verbatim>\<open>!userChoice\<close> takes for no choice) and such an
  entry, the verdict exists. A submission that passes the checks and for which
  \<^verbatim>\<open>simulateEvaluation\<close> returns stores the outcome and sets the choice to \<^verbatim>\<open>null\<close>, so
  no verdict is shown after it.
\<close>

theorem alignment_verdict:
  "(\<forall>v. alignmentState g m st = Some v \<longrightarrow>
       (\<exists>sim uc gt. simulation st = Some sim \<and> userChoice st = Some uc
          \<and> find (\<lambda>item. placement item = 1) (geminiRanking sim) = Some gt
          \<and> placement gt = 1 \<and> gt \<in> set (geminiRanking sim)
          \<and> (aligned v \<longleftrightarrow> uc = gr_modelId gt)))
   \<and> (\<forall>sim uc gt. simulation st = Some sim \<and> userChoice st = Some uc \<and> uc \<noteq> []
          \<and> find (\<lambda>item. placement item = 1) (geminiRanking sim) = Some gt \<longrightarrow>
       (\<exists>v. alignmentState g m st = Some v \<and> (aligned v \<longleftrightarrow> uc = gr_modelId gt)))
   \<and> (\<forall>out. MIN_MODELS \<le> length (selected st) \<and> length (selected st) \<le> MAX_MODELS
          \<and> trim (promptText st) \<noteq> [] \<and> eng (selected st) (promptPayload st) = Inr out \<longrightarrow>
       simulation (after (handleSubmit eng st)) = Some out
       \<and> userChoice (after (handleSubmit eng st)) = None
       \<and> alignmentState g m (after (handleSubmit eng st)) = None)"
proof (intro conjI allI impI)
  fix v assume a: "alignmentState g m st = Some v"
  then obtain sim uc gt where s: "simulation st = Some sim" and u: "userChoice st = Some uc"
    and f: "find (\<lambda>item. placement item = 1) (geminiRanking sim) = Some gt"
    and al: "aligned v \<longleftrightarrow> uc = gr_modelId gt"
    unfolding alignmentState_Some by auto
  from f have "placement gt = 1 \<and> gt \<in> set (geminiRanking sim)"
    by (auto simp add: find_Some_iff)
  with s u f al
  show "\<exists>sim uc gt. simulation st = Some sim \<and> userChoice st = Some uc
          \<and> find (\<lambda>item. placement item = 1) (geminiRanking sim) = Some gt
          \<and> placement gt = 1 \<and> gt \<in> set (geminiRanking sim)
          \<and> (aligned v \<longleftrightarrow> uc = gr_modelId gt)"
    by blast
next
  fix sim uc gt
  assume "simulation st = Some sim \<and> userChoice st = Some uc \<and> uc \<noteq> []
          \<and> find (\<lambda>item. placement item = 1) (geminiRanking sim) = Some gt"
  then show "\<exists>v. alignmentState g m st = Some v \<and> (aligned v \<longleftrightarrow> uc = gr_modelId gt)"
    by (simp add: alignmentState_Some)
next
  fix out
  assume h: "MIN_MODELS \<le> length (selected st) \<and> length (selected st) \<le> MAX_MODELS
          \<and> trim (promptText st) \<noteq> [] \<and> eng (selected st) (promptPayload st) = Inr out"
  then have r: "after (handleSubmit eng st)
     = st\<lparr>processing := False, error := None, simulation := Some out, userChoice := None\<rparr>"
    by (simp add: handleSubmit_def Let_def)
  show "simulation (after (handleSubmit eng st)) = Some out" by (simp add: r)
  show "userChoice (after (handleSubmit eng st)) = None" by (simp add: r)
  show "alignmentState g m (after (handleSubmit eng st)) = None"
    by (simp add: r alignmentState_def)
qed

theorem alignment_verdict_witness:
  "map_option aligned (alignmentState exampleLookup None shownState) = Some True
   \<and> map_option aligned
       (alignmentState exampleLookup None (shownState\<lparr>userChoice := Some (lit ''gpt'')\<rparr>))
     = Some False
   \<and> userChoice shownState = Some (lit ''claude'')
   \<and> userChoice (after (handleSubmit exampleEngine shownState)) = None
   \<and> alignmentState exampleLookup None (after (handleSubmit exampleEngine shownState)) = None"
proof -
  have s: "simulation shownState = Some exampleOutcome" by (simp add: shownState_def)
  have u: "userChoice shownState = Some (lit ''claude'')" by (simp add: shownState_def)
  have f: "find (\<lambda>item. placement item = 1) (geminiRanking exampleOutcome)
           = Some (exampleRanking ''claude'' 1)"
    by (simp add: exampleOutcome_def exampleRanking_def)
  have i: "gr_modelId (exampleRanking ''claude'' 1) = lit ''claude''"
    by (simp add: exampleRanking_def)
  have n: "lit ''claude'' \<noteq> [] \<and> lit ''gpt'' \<noteq> [] \<and> lit ''gpt'' \<noteq> lit ''claude''"
    by (simp add: lit_def)
  have l: "length (selected shownState) = 4" by (simp add: shownState_def exampleIds_def)
  have t: "trim (promptText shownState) \<noteq> []"
    by (simp add: shownState_def trim_def lit_def isWhiteSpace_def whiteSpaceUnits_def)
  have e: "exampleEngine (selected shownState) (promptPayload shownState) = Inr exampleOutcome"
    by (simp add: exampleEngine_def)
  from alignment_verdict [of exampleLookup None shownState exampleEngine]
    alignment_verdict [of exampleLookup None "shownState\<lparr>userChoice := Some (lit ''gpt'')\<rparr>"
      exampleEngine]
    s u f i n l t e
  show ?thesis by (auto simp add: MIN_MODELS_def MAX_MODELS_def)
qed

subsection \<open>Unknown model ids in the views\<close>

lemma nameOr_absent: "nameOr None i = i"
  by (simp add: nameOr_def)

text \<open>
  C8. Every view is built for every entry, whatever \<^verbatim>\<open>getModelById\<close> returns: there is
  a leaderboard row per leaderboard entry, a ranking card per ranking entry, a radio
  item and a card slot per response (the slot is empty only when no aggregate is found
  for the response). Where the lookup of an id is absent, the name shown is the id:
  in the leaderboard row, the response card (whose vendor is then absent), its peer
  notes, the radio item and the ranking card.
\<close>

theorem absent_model_shown_by_id:
  "length (leaderboardRows g st) = length (leaderboard st)
   \<and> (\<forall>k < length (leaderboard st).
         g (agg_modelId (leaderboard st ! k)) = None \<longrightarrow>
         row_model (leaderboardRows g st ! k) = agg_modelId (leaderboard st ! k))
   \<and> (g (resp_modelId r) = None \<longrightarrow>
         card_title (renderResponseCard g st r a) = resp_modelId r
         \<and> card_vendor (renderResponseCard g st r a) = None)
   \<and> (\<forall>sim. simulation st = Some sim \<longrightarrow>
         length (card_peerNotes (renderResponseCard g st r a))
           = length (take 3 (filter (\<lambda>e. targetModelId e = resp_modelId r)
                               (crossEvaluations sim)))
         \<and> (\<forall>k < length (card_peerNotes (renderResponseCard g st r a)).
               g (judgeModelId (filter (\<lambda>e. targetModelId e = resp_modelId r)
                                  (crossEvaluations sim) ! k)) = None \<longrightarrow>
               note_judge (card_peerNotes (renderResponseCard g st r a) ! k)
                 = judgeModelId (filter (\<lambda>e. targetModelId e = resp_modelId r)
                                   (crossEvaluations sim) ! k)))
   \<and> (\<forall>sim. simulation st = Some sim \<longrightarrow>
         length (responseCards g st) = length (responses sim)
         \<and> length (rankCards g st) = length (geminiRanking sim)
         \<and> length (radioItems g st) = length (responses sim)
         \<and> (\<forall>k < length (responses sim).
               g (resp_modelId (responses sim ! k)) = None \<longrightarrow>
               radio_label (radioItems g st ! k) = resp_modelId (responses sim ! k)
               \<and> (case responseCards g st ! k of
                     None \<Rightarrow> find (\<lambda>item. agg_modelId item = resp_modelId (responses sim ! k))
                               (aggregates sim) = None
                   | Some c \<Rightarrow> card_title c = resp_modelId (responses sim ! k)))
         \<and> (\<forall>k < length (geminiRanking sim).
               g (gr_modelId (geminiRanking sim ! k)) = None \<longrightarrow>
               rank_model (rankCards g st ! k) = gr_modelId (geminiRanking sim ! k)))"
proof (intro conjI allI impI ballI)
  show "length (leaderboardRows g st) = length (leaderboard st)"
    by (simp add: leaderboardRows_def)
next
  fix k assume "k < length (leaderboard st)" "g (agg_modelId (leaderboard st ! k)) = None"
  then show "row_model (leaderboardRows g st ! k) = agg_modelId (leaderboard st ! k)"
    by (simp add: leaderboardRows_def nth_enumerate_eq nameOr_absent)
next
  assume "g (resp_modelId r) = None"
  then show "card_title (renderResponseCard g st r a) = resp_modelId r"
    and "card_vendor (renderResponseCard g st r a) = None"
    by (simp_all add: renderResponseCard_def Let_def nameOr_absent)
next
  fix sim assume s: "simulation st = Some sim"
  then show "length (card_peerNotes (renderResponseCard g st r a))
           = length (take 3 (filter (\<lambda>e. targetModelId e = resp_modelId r)
                               (crossEvaluations sim)))"
    by (simp add: renderResponseCard_def Let_def crossEvaluationsByModel_def)
next
  fix sim k
  assume s: "simulation st = Some sim"
    and k: "k < length (card_peerNotes (renderResponseCard g st r a))"
    and a: "g (judgeModelId (filter (\<lambda>e. targetModelId e = resp_modelId r)
                                  (crossEvaluations sim) ! k)) = None"
  from s k have "k < 3 \<and> k < length (filter (\<lambda>e. targetModelId e = resp_modelId r)
                                  (crossEvaluations sim))"
    by (simp add: renderResponseCard_def Let_def crossEvaluationsByModel_def)
  with s a show "note_judge (card_peerNotes (renderResponseCard g st r a) ! k)
                 = judgeModelId (filter (\<lambda>e. targetModelId e = resp_modelId r)
                                   (crossEvaluations sim) ! k)"
    by (simp add: renderResponseCard_def Let_def crossEvaluationsByModel_def nameOr_absent)
next
  fix sim assume s: "simulation st = Some sim"
  show "length (responseCards g st) = length (responses sim)"
    using s by (simp add: responseCards_def)
  show "length (rankCards g st) = length (geminiRanking sim)"
    using s by (simp add: rankCards_def)
  show "length (radioItems g st) = length (responses sim)"
    using s by (simp add: radioItems_def)
next
  fix sim k
  assume s: "simulation st = Some sim" and k: "k < length (responses sim)"
    and a: "g (resp_modelId (responses sim ! k)) = None"
  show "radio_label (radioItems g st ! k) = resp_modelId (responses sim ! k)"
    using s k a by (simp add: radioItems_def nameOr_absent)
  show "case responseCards g st ! k of
          None \<Rightarrow> find (\<lambda>item. agg_modelId item = resp_modelId (responses sim ! k))
                    (aggregates sim) = None
        | Some c \<Rightarrow> card_title c = resp_modelId (responses sim ! k)"
    using s k a
    by (simp add: responseCards_def renderResponseCard_def Let_def nameOr_absent
        split: option.split)
next
  fix sim k
  assume "simulation st = Some sim" "k < length (geminiRanking sim)"
    "g (gr_modelId (geminiRanking sim ! k)) = None"
  then show "rank_model (rankCards g st ! k) = gr_modelId (geminiRanking sim ! k)"
    by (simp add: rankCards_def nameOr_absent)
qed

theorem absent_model_shown_by_id_witness:
  "length (leaderboardRows exampleLookup shownState) = 4
   \<and> row_model (leaderboardRows exampleLookup shownState ! 0) = lit ''llama''
   \<and> card_title (renderResponseCard exampleLookup shownState
                    (exampleResponse (lit ''claude'')) aggClaude) = lit ''claude''
   \<and> rank_model (rankCards exampleLookup shownState ! 0) = lit ''claude''
   \<and> length (responseCards exampleLookup shownState) = 4
   \<and> length (rankCards exampleLookup shownState) = 3"
proof -
  note T = absent_model_shown_by_id [of exampleLookup shownState
      "exampleResponse (lit ''claude'')" aggClaude]
  have lb: "leaderboard shownState = [aggLlama, aggGpt, aggClaude, aggMistral]"
    by (simp add: leaderboard_def shownState_def exampleOutcome_def arraySort_def
        aggGpt_def aggClaude_def aggLlama_def aggMistral_def)
  have s: "simulation shownState = Some exampleOutcome" by (simp add: shownState_def)
  have u: "exampleLookup (lit ''llama'') = None" "exampleLookup (lit ''claude'') = None"
    by (simp_all add: exampleLookup_def lit_def)
  have i: "agg_modelId aggLlama = lit ''llama''"
    "resp_modelId (exampleResponse (lit ''claude'')) = lit ''claude''"
    "gr_modelId (exampleRanking ''claude'' 1) = lit ''claude''"
    by (simp_all add: aggLlama_def exampleResponse_def exampleRanking_def)
  have g: "geminiRanking exampleOutcome
     = [exampleRanking ''claude'' 1, exampleRanking ''llama'' 2, exampleRanking ''gpt'' 3]"
    "length (responses exampleOutcome) = 4"
    by (simp_all add: exampleOutcome_def exampleIds_def)
  have 1: "length (leaderboardRows exampleLookup shownState) = 4" using T lb by simp
  have "0 < length (leaderboard shownState)
        \<and> exampleLookup (agg_modelId (leaderboard shownState ! 0)) = None"
    using lb u i by simp
  then have 2: "row_model (leaderboardRows exampleLookup shownState ! 0) = lit ''llama''"
    using T lb i by fastforce
  have 3: "card_title (renderResponseCard exampleLookup shownState
                    (exampleResponse (lit ''claude'')) aggClaude) = lit ''claude''"
    using T u i by simp
  have "0 < length (geminiRanking exampleOutcome)
        \<and> exampleLookup (gr_modelId (geminiRanking exampleOutcome ! 0)) = None"
    using g u i by simp
  then have 4: "rank_model (rankCards exampleLookup shownState ! 0) = lit ''claude''"
    using T s g i by fastforce
  have 5: "length (responseCards exampleLookup shownState) = 4
         \<and> length (rankCards exampleLookup shownState) = 3"
    using T s g by simp
  from 1 2 3 4 5 show ?thesis by simp
qed

subsection \<open>The engine: cross-evaluation matrix\<close>

lemma off_diagonal_filter:
  "concat (map (\<lambda>j. map (Pair j) (filter (\<lambda>t. t \<noteq> j) ys)) xs)
     = filter (\<lambda>(j, t). t \<noteq> j) (List.product xs ys)"
  by (induction xs) (simp_all add: filter_map comp_def)

lemma off_diagonal_length:
  assumes "distinct ids"
  shows "length (concat (map (\<lambda>j. map (Pair j) (filter (\<lambda>t. t \<noteq> j) ids)) ids))
           = length ids * (length ids - 1)"
proof -
  have row: "length (filter (\<lambda>t. t \<noteq> j) ids) = length ids - 1" if "j \<in> set ids" for j
  proof -
    have "filter (\<lambda>t. t \<noteq> j) ids = removeAll j ids"
      by (induction ids) auto
    also have "\<dots> = remove1 j ids" using assms by (simp add: distinct_remove1_removeAll)
    finally show ?thesis using that by (simp add: length_remove1)
  qed
  have "length (concat (map (\<lambda>j. map (Pair j) (filter (\<lambda>t. t \<noteq> j) ids)) ids))
          = sum_list (map (\<lambda>j. length (filter (\<lambda>t. t \<noteq> j) ids)) ids)"
    by (simp add: length_concat comp_def)
  also have "\<dots> = sum_list (map (\<lambda>j. length ids - 1) ids)"
    using row by (intro arg_cong [where f = sum_list] map_cong) simp_all
  also have "\<dots> = length ids * (length ids - 1)"
    by (simp add: sum_list_triv)
  finally show ?thesis .
qed

lemma matrix_pairs:
  "map (\<lambda>e. (judgeModelId e, targetModelId e)) (buildMatrix fl rs)
     = concat (map (\<lambda>j. map (Pair j) (filter (\<lambda>t. t \<noteq> j) (map resp_modelId rs)))
                   (map resp_modelId rs))"
  by (simp add: buildMatrix_def map_concat comp_def crossEvaluate_def Let_def filter_map)

lemma getModelById_id: "getModelById catalog i = Some m \<Longrightarrow> model_id m = i"
  by (auto simp add: getModelById_def find_Some_iff)

lemma known_ids_resolve:
  "\<forall>i \<in> set ids. getModelById catalog i \<noteq> None \<Longrightarrow>
     map model_id (List.map_filter (getModelById catalog) ids) = ids"
proof (induction ids)
  case Nil
  then show ?case by (simp add: List.map_filter_simps)
next
  case (Cons i ids)
  then obtain m where m: "getModelById catalog i = Some m" by auto
  with Cons show ?case by (simp add: List.map_filter_simps getModelById_id)
qed

lemma response_ids:
  "\<forall>i \<in> set ids. getModelById catalog i \<noteq> None \<Longrightarrow>
     map resp_modelId (map (\<lambda>m. synthesize fl m prompt)
                           (List.map_filter (getModelById catalog) ids)) = ids"
proof -
  assume k: "\<forall>i \<in> set ids. getModelById catalog i \<noteq> None"
  have e: "resp_modelId \<circ> (\<lambda>m. synthesize fl m prompt) = model_id"
    by (rule ext) (simp add: synthesize_def)
  show ?thesis using known_ids_resolve [OF k] by (simp add: e)
qed

lemma valid_submission_runs:
  assumes "length ids = 4 \<or> length ids = 5"
    and "distinct ids"
    and "\<forall>i \<in> set ids. getModelById catalog i \<noteq> None"
    and "trim (payload_text prompt) \<noteq> []"
  shows "simulateEvaluation catalog fl amb ids prompt = Inr (runPipeline catalog fl ids prompt)"
proof -
  have "\<not> (length ids < 4 \<or> length ids > 5
         \<or> (\<exists>i \<in> set ids. getModelById catalog i = None) \<or> \<not> distinct ids)"
    using assms(1-3) by auto
  then show ?thesis
    unfolding simulateEvaluation_def using assms(4) by (simp only: if_False)
qed

text \<open>
  C4. For a selection of 4 or 5 different known model ids and a prompt that is not
  blank, \<^verbatim>\<open>simulateEvaluation\<close> returns an outcome with one response per selected id, in
  order, and \<open>N * (N - 1)\<close> cross-evaluations: no entry has the judge as its target, no
  pair of judge and target occurs twice, and the pairs are exactly the ordered pairs
  of different selected ids.
\<close>

theorem matrix_complete_without_self_pairs:
  assumes "length ids = 4 \<or> length ids = 5"
    and "distinct ids"
    and "\<forall>i \<in> set ids. getModelById catalog i \<noteq> None"
    and "trim (payload_text prompt) \<noteq> []"
  shows "\<exists>out. simulateEvaluation catalog fl amb ids prompt = Inr out
           \<and> map resp_modelId (responses out) = ids
           \<and> length (crossEvaluations out) = length ids * (length ids - 1)
           \<and> (\<forall>e \<in> set (crossEvaluations out). judgeModelId e \<noteq> targetModelId e)
           \<and> distinct (map (\<lambda>e. (judgeModelId e, targetModelId e)) (crossEvaluations out))
           \<and> set (map (\<lambda>e. (judgeModelId e, targetModelId e)) (crossEvaluations out))
               = {(j, t). j \<in> set ids \<and> t \<in> set ids \<and> j \<noteq> t}"
proof -
  define rs where "rs = map (\<lambda>m. synthesize fl m prompt)
                            (List.map_filter (getModelById catalog) ids)"
  define out where "out = runPipeline catalog fl ids prompt"
  have run: "simulateEvaluation catalog fl amb ids prompt = Inr out"
    unfolding out_def using assms by (rule valid_submission_runs)
  have fields: "responses out = rs" "crossEvaluations out = buildMatrix fl rs"
    by (simp_all add: out_def runPipeline_def Let_def rs_def)
  have ids: "map resp_modelId rs = ids"
    unfolding rs_def using assms(3) by (rule response_ids)
  have pairs: "map (\<lambda>e. (judgeModelId e, targetModelId e)) (buildMatrix fl rs)
                 = filter (\<lambda>(j, t). t \<noteq> j) (List.product ids ids)"
    by (simp only: matrix_pairs ids off_diagonal_filter)
  have len: "length (buildMatrix fl rs) = length ids * (length ids - 1)"
  proof -
    have "length (buildMatrix fl rs)
            = length (map (\<lambda>e. (judgeModelId e, targetModelId e)) (buildMatrix fl rs))"
      by simp
    also have "\<dots> = length ids * (length ids - 1)"
      by (simp only: matrix_pairs ids off_diagonal_length [OF assms(2)])
    finally show ?thesis .
  qed
  have noself: "\<forall>e \<in> set (buildMatrix fl rs). judgeModelId e \<noteq> targetModelId e"
  proof
    fix e assume "e \<in> set (buildMatrix fl rs)"
    then have "(judgeModelId e, targetModelId e)
                 \<in> set (map (\<lambda>e. (judgeModelId e, targetModelId e)) (buildMatrix fl rs))"
      by auto
    then show "judgeModelId e \<noteq> targetModelId e" unfolding pairs by auto
  qed
  have dist: "distinct (map (\<lambda>e. (judgeModelId e, targetModelId e)) (buildMatrix fl rs))"
    unfolding pairs using assms(2) by (simp add: distinct_product)
  have st: "set (map (\<lambda>e. (judgeModelId e, targetModelId e)) (buildMatrix fl rs))
               = {(j, t). j \<in> set ids \<and> t \<in> set ids \<and> j \<noteq> t}"
    unfolding pairs by auto
  from run ids len noself dist st fields show ?thesis by (intro exI [of _ out]) simp
qed

theorem matrix_complete_without_self_pairs_witness:
  "(\<exists>out. simulateEvaluation exampleCatalog exampleFlavour exampleAmbient exampleIds
              examplePrompt = Inr out
          \<and> map resp_modelId (responses out) = exampleIds
          \<and> length (crossEvaluations out) = 12
          \<and> list_all (\<lambda>e. judgeModelId e \<noteq> targetModelId e) (crossEvaluations out))
   \<and> (\<exists>out. simulateEvaluation exampleCatalog exampleFlavour exampleAmbient
              (exampleIds @ [lit ''qwen'']) examplePrompt = Inr out
          \<and> length (crossEvaluations out) = 20
          \<and> list_all (\<lambda>e. judgeModelId e \<noteq> targetModelId e) (crossEvaluations out))"
proof -
  have l: "length exampleIds = 4" by (simp add: exampleIds_def)
  have d: "distinct (exampleIds @ [lit ''qwen''])" by (simp add: exampleIds_def lit_def)
  have k: "\<forall>i \<in> set (exampleIds @ [lit ''qwen'']). getModelById exampleCatalog i \<noteq> None"
    by (simp add: exampleIds_def getModelById_def exampleCatalog_def exampleModel_def lit_def)
  have t: "trim (payload_text examplePrompt) \<noteq> []"
    by (simp add: examplePrompt_def trim_def lit_def isWhiteSpace_def whiteSpaceUnits_def)
  from d have d4: "distinct exampleIds" by simp
  from k have k4: "\<forall>i \<in> set exampleIds. getModelById exampleCatalog i \<noteq> None" by simp
  have a: "\<exists>out. simulateEvaluation exampleCatalog exampleFlavour exampleAmbient exampleIds
              examplePrompt = Inr out
          \<and> map resp_modelId (responses out) = exampleIds
          \<and> length (crossEvaluations out) = 12
          \<and> list_all (\<lambda>e. judgeModelId e \<noteq> targetModelId e) (crossEvaluations out)"
    using matrix_complete_without_self_pairs [of exampleIds exampleCatalog examplePrompt
        exampleFlavour exampleAmbient] l d4 k4 t
    by (simp add: list_all_iff) blast
  have b: "\<exists>out. simulateEvaluation exampleCatalog exampleFlavour exampleAmbient
              (exampleIds @ [lit ''qwen'']) examplePrompt = Inr out
          \<and> length (crossEvaluations out) = 20
          \<and> list_all (\<lambda>e. judgeModelId e \<noteq> targetModelId e) (crossEvaluations out)"
    using matrix_complete_without_self_pairs [of "exampleIds @ [lit ''qwen'']" exampleCatalog
        examplePrompt exampleFlavour exampleAmbient] l d k t
    by (simp add: list_all_iff) blast
  from a b show ?thesis by (rule conjI)
qed

end
